theory Spec2Isabelle
  imports Main
begin

section \<open>Python values and exceptions\<close>

text \<open>
  Strings are Python \<open>str\<close> values restricted to code points below 256 (one \<open>char\<close>
  per code point). The values a result row can hold are the JSON-shaped Python values:
  \<open>None\<close>, \<open>bool\<close>, \<open>int\<close>, \<open>str\<close>, \<open>list\<close> and \<open>dict\<close> with string keys (an
  association list in insertion order). \<open>JOpaque cls\<close> stands for an object of a class
  that \<open>json.dumps\<close> cannot encode (\<open>datetime\<close>, \<open>Decimal\<close>, \<open>bytes\<close>); \<open>cls\<close> is the
  class name. Floats are not modelled.
\<close>

datatype jvalue =
    JNull
  | JBool bool
  | JInt int
  | JStr string
  | JList "jvalue list"
  | JDict "(string \<times> jvalue) list"
  | JOpaque string

text \<open>
  The exceptions of the program, all subclasses of \<open>Exception\<close>. \<open>BackendError\<close> is
  any exception raised inside the BigQuery client library; its string is \<open>str(e)\<close>.
\<close>

datatype exn =
    ValueError string
  | RuntimeError string
  | TypeError string
  | BackendError string

text \<open>\<open>str(e)\<close>, as the f-string \<open>f"Error: {e}"\<close> formats it.\<close>

fun exn_str :: "exn \<Rightarrow> string" where
  "exn_str (ValueError m) = m"
| "exn_str (RuntimeError m) = m"
| "exn_str (TypeError m) = m"
| "exn_str (BackendError m) = m"

section \<open>Library functions the program calls\<close>

subsection \<open>\<open>str.split(sep)\<close> with a one-character separator\<close>

fun split_sep :: "char \<Rightarrow> string \<Rightarrow> string list" where
  "split_sep c [] = [[]]"
| "split_sep c (x # xs) =
     (if x = c then [] # split_sep c xs
      else (case split_sep c xs of
              [] \<Rightarrow> [[x]]
            | p # ps \<Rightarrow> (x # p) # ps))"

subsection \<open>\<open>dict(items)\<close>\<close>

text \<open>
  Storing a key that is already present replaces its value and keeps its position;
  a new key goes to the end.
\<close>

fun dict_set :: "(string \<times> 'v) list \<Rightarrow> string \<Rightarrow> 'v \<Rightarrow> (string \<times> 'v) list" where
  "dict_set [] k v = [(k, v)]"
| "dict_set ((k', v') # d) k v =
     (if k' = k then (k', v) # d else (k', v') # dict_set d k v)"

fun dict_from :: "(string \<times> 'v) list \<Rightarrow> (string \<times> 'v) list \<Rightarrow> (string \<times> 'v) list" where
  "dict_from d [] = d"
| "dict_from d ((k, v) # items) = dict_from (dict_set d k v) items"

definition py_dict :: "(string \<times> 'v) list \<Rightarrow> (string \<times> 'v) list" where
  "py_dict items = dict_from [] items"

subsection \<open>\<open>json.dumps(obj, indent=2)\<close>\<close>

text \<open>
  With \<open>indent\<close> given, the encoder is the pure Python one
  (\<open>json.encoder._make_iterencode\<close>), with \<open>ensure_ascii=True\<close>, item separator \<open>,\<close>
  and key separator \<open>: \<close>.
\<close>

definition hex_digit :: "nat \<Rightarrow> char" where
  "hex_digit n = (if n < 10 then char_of (48 + n) else char_of (87 + n))"

text \<open>
  \<open>ESCAPE_ASCII\<close> matches the backslash, the double quote and everything outside
  \<open>' '..'~'\<close>; \<open>ESCAPE_DCT\<close> gives the short escapes, the rest is \<open>\uXXXX\<close>.
\<close>

definition escape_char :: "char \<Rightarrow> string" where
  "escape_char c =
     (if c = CHR 0x5C then [CHR 0x5C, CHR 0x5C]
      else if c = CHR 0x22 then [CHR 0x5C, CHR 0x22]
      else if c = CHR 0x08 then [CHR 0x5C, CHR ''b'']
      else if c = CHR 0x0C then [CHR 0x5C, CHR ''f'']
      else if c = CHR 0x0A then [CHR 0x5C, CHR ''n'']
      else if c = CHR 0x0D then [CHR 0x5C, CHR ''r'']
      else if c = CHR 0x09 then [CHR 0x5C, CHR ''t'']
      else if 32 \<le> (of_char c :: nat) \<and> (of_char c :: nat) \<le> 126 then [c]
      else [CHR 0x5C, CHR ''u'', CHR ''0'', CHR ''0'',
            hex_digit ((of_char c :: nat) div 16), hex_digit ((of_char c :: nat) mod 16)])"

definition encode_basestring_ascii :: "string \<Rightarrow> string" where
  "encode_basestring_ascii s = [CHR 0x22] @ concat (map escape_char s) @ [CHR 0x22]"

text \<open>\<open>int.__repr__\<close>: decimal digits, with a minus sign for a negative number.\<close>

fun nat_repr :: "nat \<Rightarrow> string" where
  "nat_repr n = (if n < 10 then [char_of (48 + n)]
                 else nat_repr (n div 10) @ [char_of (48 + n mod 10)])"

declare nat_repr.simps [simp del]

definition int_repr :: "int \<Rightarrow> string" where
  "int_repr i = (if i < 0 then CHR ''-'' # nat_repr (nat (- i)) else nat_repr (nat i))"

text \<open>\<open>'\n' + indent * level\<close> with \<open>indent = '  '\<close>.\<close>

definition newline_indent :: "nat \<Rightarrow> string" where
  "newline_indent level = CHR 0x0A # replicate (2 * level) CHR '' ''"

text \<open>
  \<open>_iterencode\<close>, \<open>_iterencode_list\<close> and \<open>_iterencode_dict\<close>, with the chunks joined.
  \<open>iterencode_items\<close> and \<open>iterencode_members\<close> are the loops over the elements after
  the first one, each preceded by the separator. An opaque object has no encoding
  (\<open>json_dumps\<close> below raises for it).
\<close>

fun iterencode :: "nat \<Rightarrow> jvalue \<Rightarrow> string"
  and iterencode_items :: "nat \<Rightarrow> jvalue list \<Rightarrow> string"
  and iterencode_members :: "nat \<Rightarrow> (string \<times> jvalue) list \<Rightarrow> string"
where
  "iterencode level JNull = ''null''"
| "iterencode level (JBool b) = (if b then ''true'' else ''false'')"
| "iterencode level (JInt i) = int_repr i"
| "iterencode level (JStr s) = encode_basestring_ascii s"
| "iterencode level (JList []) = ''[]''"
| "iterencode level (JList (v # vs)) =
     ''['' @ newline_indent (Suc level) @ iterencode (Suc level) v
       @ iterencode_items (Suc level) vs @ newline_indent level @ '']''"
| "iterencode level (JDict []) = ''{}''"
| "iterencode level (JDict ((k, v) # kvs)) =
     ''{'' @ newline_indent (Suc level) @ encode_basestring_ascii k @ '': ''
       @ iterencode (Suc level) v
       @ iterencode_members (Suc level) kvs @ newline_indent level @ ''}''"
| "iterencode level (JOpaque cls) = []"
| "iterencode_items level [] = []"
| "iterencode_items level (v # vs) =
     '','' @ newline_indent level @ iterencode level v @ iterencode_items level vs"
| "iterencode_members level [] = []"
| "iterencode_members level ((k, v) # kvs) =
     '','' @ newline_indent level @ encode_basestring_ascii k @ '': ''
       @ iterencode level v @ iterencode_members level kvs"

text \<open>
  The first object, in encoding order, that the encoder has no case for: there
  \<open>JSONEncoder.default\<close> raises \<open>TypeError\<close>.
\<close>

fun first_opaque :: "jvalue \<Rightarrow> string option"
  and first_opaque_items :: "jvalue list \<Rightarrow> string option"
  and first_opaque_members :: "(string \<times> jvalue) list \<Rightarrow> string option"
where
  "first_opaque JNull = None"
| "first_opaque (JBool b) = None"
| "first_opaque (JInt i) = None"
| "first_opaque (JStr s) = None"
| "first_opaque (JList vs) = first_opaque_items vs"
| "first_opaque (JDict kvs) = first_opaque_members kvs"
| "first_opaque (JOpaque cls) = Some cls"
| "first_opaque_items [] = None"
| "first_opaque_items (v # vs) =
     (case first_opaque v of Some cls \<Rightarrow> Some cls | None \<Rightarrow> first_opaque_items vs)"
| "first_opaque_members [] = None"
| "first_opaque_members ((k, v) # kvs) =
     (case first_opaque v of Some cls \<Rightarrow> Some cls | None \<Rightarrow> first_opaque_members kvs)"

definition json_dumps :: "jvalue \<Rightarrow> exn + string" where
  "json_dumps obj =
     (case first_opaque obj of
        Some cls \<Rightarrow> Inl (TypeError (''Object of type '' @ cls @ '' is not JSON serializable''))
      | None \<Rightarrow> Inr (iterencode 0 obj))"

subsection \<open>\<open>json.loads(s)\<close>\<close>















subsection \<open>The values that \<open>json.dumps\<close> and \<open>json.loads\<close> exchange\<close>










section \<open>The BigQuery client library\<close>

text \<open>
  The client library is outside the program. A \<open>bigquery.Client\<close> is the record of the
  three calls the program makes on it; each returns its value or raises.
  \<open>client_query text job_config\<close> stands for \<open>client.query(...)\<close> followed by
  \<open>job.result()\<close> and the iteration over the rows (each row as its \<open>items()\<close>);
  \<open>job_config\<close> is \<open>None\<close> when the call passes none, and the list of query
  parameters of the \<open>QueryJobConfig\<close> otherwise.
\<close>

datatype query_param = ScalarQueryParameter string string string

type_synonym row_items = "(string \<times> jvalue) list"

record bq_client =
  client_query :: "string \<Rightarrow> query_param list option \<Rightarrow> exn + row_items list"
  client_list_datasets :: "exn + string list"
  client_list_tables :: "string \<Rightarrow> exn + string list"

type_synonym credentials = string

record gcloud =
  from_service_account_file :: "string \<Rightarrow> exn + credentials"
  Client :: "credentials option \<Rightarrow> string \<Rightarrow> string \<Rightarrow> exn + bq_client"

text \<open>The calls made on the library, in the order they are made.\<close>

datatype event =
    ClientEv "credentials option" string string
  | QueryEv string "query_param list option"
  | ListDatasetsEv
  | ListTablesEv string

fun is_ClientEv :: "event \<Rightarrow> bool" where
  "is_ClientEv (ClientEv c p l) = True"
| "is_ClientEv (QueryEv q j) = False"
| "is_ClientEv ListDatasetsEv = False"
| "is_ClientEv (ListTablesEv d) = False"

section \<open>class BigQueryDatabase\<close>

record BigQueryDatabase =
  client :: bq_client
  datasets_filter :: "string list"

definition BigQueryDatabase_init ::
  "gcloud \<Rightarrow> string option \<Rightarrow> string option \<Rightarrow> string option \<Rightarrow> string list
     \<Rightarrow> (exn + BigQueryDatabase) \<times> event list" where
  "BigQueryDatabase_init g project location key_file datasets =
     (if project = None \<or> project = Some [] then (Inl (ValueError ''Project is required''), [])
      else if location = None \<or> location = Some [] then (Inl (ValueError ''Location is required''), [])
      else
        (case (if key_file = None \<or> key_file = Some [] then Inr None
               else (case from_service_account_file g (the key_file) of
                       Inl e \<Rightarrow> Inl (ValueError (''Invalid key file: '' @ exn_str e))
                     | Inr cr \<Rightarrow> Inr (Some cr))) of
           Inl e \<Rightarrow> (Inl e, [])
         | Inr credentials \<Rightarrow>
             (case Client g credentials (the project) (the location) of
                Inl e \<Rightarrow> (Inl e, [ClientEv credentials (the project) (the location)])
              | Inr c \<Rightarrow> (Inr \<lparr>client = c, datasets_filter = datasets\<rparr>,
                          [ClientEv credentials (the project) (the location)]))))"

text \<open>
  \<open>execute_query\<close>: \<open>params\<close> is passed on only when it is truthy; an exception of the
  client is logged and raised again as it is.
\<close>

definition BigQueryDatabase_execute_query ::
  "BigQueryDatabase \<Rightarrow> string \<Rightarrow> query_param list option
     \<Rightarrow> (exn + row_items list) \<times> event list" where
  "BigQueryDatabase_execute_query self query params =
     (let job_config = (if params = None \<or> params = Some [] then None else params) in
      (case client_query (client self) query job_config of
         Inl e \<Rightarrow> (Inl e, [QueryEv query job_config])
       | Inr results \<Rightarrow> (Inr (map py_dict results), [QueryEv query job_config])))"

fun list_tables_loop ::
  "bq_client \<Rightarrow> string list \<Rightarrow> string list \<Rightarrow> (exn + string list) \<times> event list" where
  "list_tables_loop c [] tables = (Inr tables, [])"
| "list_tables_loop c (dataset_id # datasets) tables =
     (case client_list_tables c dataset_id of
        Inl e \<Rightarrow> (Inl e, [ListTablesEv dataset_id])
      | Inr dataset_tables \<Rightarrow>
          (case list_tables_loop c datasets
                  (tables @ map (\<lambda>table_id. dataset_id @ ''.'' @ table_id) dataset_tables) of
             (r, evs) \<Rightarrow> (r, ListTablesEv dataset_id # evs)))"

definition BigQueryDatabase_list_tables ::
  "BigQueryDatabase \<Rightarrow> (exn + string list) \<times> event list" where
  "BigQueryDatabase_list_tables self =
     (if datasets_filter self \<noteq> [] then list_tables_loop (client self) (datasets_filter self) []
      else (case client_list_datasets (client self) of
              Inl e \<Rightarrow> (Inl e, [ListDatasetsEv])
            | Inr datasets \<Rightarrow>
                (case list_tables_loop (client self) datasets [] of
                   (r, evs) \<Rightarrow> (r, ListDatasetsEv # evs))))"

text \<open>The f-string of \<open>describe_table\<close>: only \<open>dataset_id\<close> is interpolated.\<close>

definition describe_query :: "string \<Rightarrow> string" where
  "describe_query dataset_id =
     [CHR 0x0A] @ replicate 12 CHR '' '' @ ''SELECT ddl''
     @ [CHR 0x0A] @ replicate 12 CHR '' '' @ ''FROM '' @ dataset_id @ ''.INFORMATION_SCHEMA.TABLES''
     @ [CHR 0x0A] @ replicate 12 CHR '' '' @ ''WHERE table_name = @table_name;''
     @ [CHR 0x0A] @ replicate 8 CHR '' ''"

definition BigQueryDatabase_describe_table ::
  "BigQueryDatabase \<Rightarrow> string \<Rightarrow> (exn + row_items list) \<times> event list" where
  "BigQueryDatabase_describe_table self table_name =
     (case split_sep CHR ''.'' table_name of
        [dataset_id, table_id] \<Rightarrow>
          BigQueryDatabase_execute_query self (describe_query dataset_id)
            (Some [ScalarQueryParameter ''table_name'' ''STRING'' table_id])
      | _ \<Rightarrow> (Inl (ValueError (''Invalid table name: '' @ table_name)), []))"

section \<open>The tools\<close>

text \<open>The module's global \<open>_db\<close>.\<close>

record state =
  db :: "BigQueryDatabase option"

definition get_db :: "state \<Rightarrow> exn + BigQueryDatabase" where
  "get_db st =
     (case db st of
        None \<Rightarrow> Inl (RuntimeError ''BigQueryDatabase not initialized'')
      | Some d \<Rightarrow> Inr d)"

text \<open>
  A tool returns its string (\<open>Inr\<close>) or lets an exception out (\<open>Inl\<close>). \<open>get_db()\<close> is
  called before the \<open>try\<close>; the method call and \<open>json.dumps\<close> are inside it. The tools
  have no \<open>await\<close> and assign nothing, so each runs from start to end on the state it
  was given.
\<close>

definition error_result :: "exn \<Rightarrow> string" where
  "error_result e = ''Error: '' @ exn_str e"

definition execute_query :: "state \<Rightarrow> string \<Rightarrow> (exn + string) \<times> event list" where
  "execute_query st query =
     (case get_db st of
        Inl e \<Rightarrow> (Inl e, [])
      | Inr d \<Rightarrow>
          (case BigQueryDatabase_execute_query d query None of
             (Inl e, evs) \<Rightarrow> (Inr (error_result e), evs)
           | (Inr results, evs) \<Rightarrow>
               (case json_dumps (JList (map JDict results)) of
                  Inl e \<Rightarrow> (Inr (error_result e), evs)
                | Inr s \<Rightarrow> (Inr s, evs))))"

definition list_tables :: "state \<Rightarrow> (exn + string) \<times> event list" where
  "list_tables st =
     (case get_db st of
        Inl e \<Rightarrow> (Inl e, [])
      | Inr d \<Rightarrow>
          (case BigQueryDatabase_list_tables d of
             (Inl e, evs) \<Rightarrow> (Inr (error_result e), evs)
           | (Inr tables, evs) \<Rightarrow>
               (case json_dumps (JList (map JStr tables)) of
                  Inl e \<Rightarrow> (Inr (error_result e), evs)
                | Inr s \<Rightarrow> (Inr s, evs))))"

definition describe_table :: "state \<Rightarrow> string \<Rightarrow> (exn + string) \<times> event list" where
  "describe_table st table_name =
     (case get_db st of
        Inl e \<Rightarrow> (Inl e, [])
      | Inr d \<Rightarrow>
          (case BigQueryDatabase_describe_table d table_name of
             (Inl e, evs) \<Rightarrow> (Inr (error_result e), evs)
           | (Inr schema, evs) \<Rightarrow>
               (case json_dumps (JList (map JDict schema)) of
                  Inl e \<Rightarrow> (Inr (error_result e), evs)
                | Inr s \<Rightarrow> (Inr s, evs))))"

text \<open>
  What the three \<open>@mcp.tool()\<close> decorators register, in order: the function's name and
  its parameters with their annotations.
\<close>

record tool =
  tool_name :: string
  tool_params :: "(string \<times> string) list"

definition mcp_tools :: "tool list" where
  "mcp_tools =
     [\<lparr>tool_name = ''execute_query'', tool_params = [(''query'', ''str'')]\<rparr>,
      \<lparr>tool_name = ''list_tables'', tool_params = []\<rparr>,
      \<lparr>tool_name = ''describe_table'', tool_params = [(''table_name'', ''str'')]\<rparr>]"

section \<open>The routes\<close>

text \<open>The path of \<open>@app.get("/mcp/sse")\<close>, where \<open>handle_sse\<close> is mounted.\<close>

definition handle_sse_path :: string where
  "handle_sse_path = ''/mcp/sse''"

text \<open>
  \<open>mcp_status\<close> returns a dict literal. Like the tools it is given the module's state
  and returns its value with the library calls it made.
\<close>

definition mcp_status :: "state \<Rightarrow> (string \<times> string) list \<times> event list" where
  "mcp_status st =
     ([(''status'', ''ok''),
       (''message'', ''MCP BigQuery server is running.''),
       (''sse_endpoint'', ''/mcp/sse'')], [])"

section \<open>Start-up\<close>

text \<open>
  \<open>os.getenv\<close> reads the environment, a partial map. A string is truthy when it is
  not empty, \<open>None\<close> is falsy.
\<close>

definition truthy :: "'a list option \<Rightarrow> bool" where
  "truthy x = (case x of None \<Rightarrow> False | Some v \<Rightarrow> v \<noteq> [])"

definition init_db_from_env ::
  "gcloud \<Rightarrow> (string \<rightharpoonup> string) \<Rightarrow> state \<Rightarrow> (exn + state) \<times> event list" where
  "init_db_from_env g env st =
     (let project = env ''BQ_PROJECT_ID'';
          location = env ''BQ_LOCATION'';
          key_file = env ''BQ_KEY_FILE'';
          datasets = (if truthy (env ''BQ_DATASETS'')
                      then split_sep CHR '','' (the (env ''BQ_DATASETS''))
                      else [])
      in (case BigQueryDatabase_init g project location key_file datasets of
            (Inl e, evs) \<Rightarrow> (Inl e, evs)
          | (Inr d, evs) \<Rightarrow> (Inr (st\<lparr>db := Some d\<rparr>), evs)))"

text \<open>\<open>sep.join(xs)\<close>.\<close>

fun join_sep :: "string \<Rightarrow> string list \<Rightarrow> string" where
  "join_sep sep [] = []"
| "join_sep sep [x] = x"
| "join_sep sep (x # y # ys) = x @ sep @ join_sep sep (y # ys)"

record args =
  arg_project :: "string option"
  arg_location :: "string option"
  arg_key_file :: "string option"
  arg_dataset :: "string list option"
  arg_port :: nat

text \<open>
  \<open>uvicorn.run(app, ...)\<close> serves until the process ends. \<open>serve\<close> stands for it: the
  tool calls that arrive are run one after the other on the module's state (a tool
  has no \<open>await\<close>, so the event loop runs each from start to end), and the result of
  each is collected.
\<close>

datatype tool_call =
    CallExecuteQuery string
  | CallListTables
  | CallDescribeTable string

fun call_tool :: "state \<Rightarrow> tool_call \<Rightarrow> (exn + string) \<times> event list" where
  "call_tool st (CallExecuteQuery query) = execute_query st query"
| "call_tool st CallListTables = list_tables st"
| "call_tool st (CallDescribeTable table_name) = describe_table st table_name"

fun serve :: "state \<Rightarrow> tool_call list \<Rightarrow> (exn + string) list \<times> event list" where
  "serve st [] = ([], [])"
| "serve st (c # cs) =
     (case call_tool st c of
        (r, evs) \<Rightarrow> (case serve st cs of (rs, evs') \<Rightarrow> (r # rs, evs @ evs')))"

text \<open>
  \<open>main\<close>: the command line overrides the environment, then the database object is
  made, then the server runs. At import time \<open>_db\<close> is \<open>None\<close>. An exception of
  \<open>init_db_from_env\<close> ends the process before anything is served.
\<close>

definition main_env :: "args \<Rightarrow> (string \<rightharpoonup> string) \<Rightarrow> (string \<rightharpoonup> string)" where
  "main_env a env =
     (let env1 = (if truthy (arg_project a) then env(''BQ_PROJECT_ID'' \<mapsto> the (arg_project a)) else env);
          env2 = (if truthy (arg_location a) then env1(''BQ_LOCATION'' \<mapsto> the (arg_location a)) else env1);
          env3 = (if truthy (arg_key_file a) then env2(''BQ_KEY_FILE'' \<mapsto> the (arg_key_file a)) else env2)
      in (if truthy (arg_dataset a)
          then env3(''BQ_DATASETS'' \<mapsto> join_sep '','' (the (arg_dataset a)))
          else env3))"

definition main ::
  "gcloud \<Rightarrow> args \<Rightarrow> (string \<rightharpoonup> string) \<Rightarrow> tool_call list
     \<Rightarrow> (exn + (exn + string) list) \<times> event list" where
  "main g a env calls =
     (case init_db_from_env g (main_env a env) \<lparr>db = None\<rparr> of
        (Inl e, evs) \<Rightarrow> (Inl e, evs)
      | (Inr st, evs) \<Rightarrow>
          (case serve st calls of (rs, evs') \<Rightarrow> (Inr rs, evs @ evs')))"

section \<open>Stub collaborators\<close>

text \<open>
  A stub backend that answers every query with \<open>[{"x": 1}]\<close>, one whose calls all
  fail, one whose rows hold a \<open>datetime\<close>, one whose row holds nested values, and a stub of
  the Google libraries that hands out the first.
\<close>

definition stub_client :: bq_client where
  "stub_client =
     \<lparr>client_query = (\<lambda>q j. Inr [[(''x'', JInt 1)]]),
      client_list_datasets = Inr [''ds''],
      client_list_tables = (\<lambda>d. Inr [''t1'', ''t2''])\<rparr>"

definition failing_client :: bq_client where
  "failing_client =
     \<lparr>client_query = (\<lambda>q j. Inl (BackendError ''Syntax error'')),
      client_list_datasets = Inl (BackendError ''Forbidden''),
      client_list_tables = (\<lambda>d. Inl (BackendError ''Forbidden''))\<rparr>"

definition stub_db :: BigQueryDatabase where
  "stub_db = \<lparr>client = stub_client, datasets_filter = []\<rparr>"

definition failing_db :: BigQueryDatabase where
  "failing_db = \<lparr>client = failing_client, datasets_filter = []\<rparr>"

definition opaque_db :: BigQueryDatabase where
  "opaque_db =
     \<lparr>client = \<lparr>client_query = (\<lambda>q j. Inr [[(''ts'', JOpaque ''datetime'')]]),
                 client_list_datasets = Inr [],
                 client_list_tables = (\<lambda>d. Inr [])\<rparr>,
      datasets_filter = [''ds'']\<rparr>"



definition stub_gcloud :: gcloud where
  "stub_gcloud =
     \<lparr>from_service_account_file = (\<lambda>f. Inr ''svc''),
      Client = (\<lambda>cr p l. Inr stub_client)\<rparr>"

definition stub_args :: args where
  "stub_args =
     \<lparr>arg_project = Some ''proj'', arg_location = Some ''EU'', arg_key_file = None,
      arg_dataset = None, arg_port = 8080\<rparr>"

section \<open>Facts about the library functions\<close>

lemma length_split_sep: "length (split_sep c s) = Suc (count_list s c)"
  by (induction s) (auto split: list.splits)

lemma split_sep_nosep: "c \<notin> set t \<Longrightarrow> split_sep c t = [t]"
  by (induction t) auto

lemma split_sep_one: "c \<notin> set d \<Longrightarrow> c \<notin> set t \<Longrightarrow> split_sep c (d @ c # t) = [d, t]"
  by (induction d) (auto simp: split_sep_nosep)

lemma iterencode_list_starts: "take 1 (iterencode level (JList vs)) = ''[''"
  by (cases vs) simp_all

lemma json_dumps_Inr: "json_dumps v = Inr s \<Longrightarrow> s = iterencode 0 v"
  by (auto simp: json_dumps_def split: option.splits)

lemma first_opaque_items_JStr: "first_opaque_items (map JStr ts) = None"
  by (induction ts) simp_all

lemma json_dumps_strs: "json_dumps (JList (map JStr ts)) = Inr (iterencode 0 (JList (map JStr ts)))"
  by (simp add: json_dumps_def first_opaque_items_JStr)

section \<open>Table names\<close>

lemma describe_table_not_two:
  "length (split_sep CHR ''.'' table_name) \<noteq> 2 \<Longrightarrow>
   BigQueryDatabase_describe_table self table_name =
     (Inl (ValueError (''Invalid table name: '' @ table_name)), [])"
  unfolding BigQueryDatabase_describe_table_def
  by (auto split: list.splits)

text \<open>
  C2. A table name whose number of dots is not one splits into a number of segments
  that is not two; \<open>describe_table\<close> then raises \<open>ValueError\<close> with the message
  \<open>Invalid table name: <name>\<close> and has made no call on the client, and the tool
  returns \<open>Error: Invalid table name: <name>\<close>, again with no call made.
\<close>

theorem describe_table_invalid_name:
  assumes "count_list table_name CHR ''.'' \<noteq> 1"
  shows "length (split_sep CHR ''.'' table_name) \<noteq> 2
    \<and> BigQueryDatabase_describe_table self table_name =
        (Inl (ValueError (''Invalid table name: '' @ table_name)), [])
    \<and> describe_table \<lparr>db = Some self\<rparr> table_name =
        (Inr (''Error: Invalid table name: '' @ table_name), [])"
proof -
  have n: "length (split_sep CHR ''.'' table_name) \<noteq> 2"
    using assms by (simp add: length_split_sep)
  have m: "BigQueryDatabase_describe_table self table_name =
        (Inl (ValueError (''Invalid table name: '' @ table_name)), [])"
    by (rule describe_table_not_two [OF n])
  have "describe_table \<lparr>db = Some self\<rparr> table_name =
        (Inr (''Error: Invalid table name: '' @ table_name), [])"
    by (simp add: describe_table_def get_db_def m error_result_def)
  with n m show ?thesis by simp
qed

theorem describe_table_invalid_name_witness:
  "count_list ''bad_name_no_dot'' CHR ''.'' \<noteq> 1
   \<and> describe_table \<lparr>db = Some stub_db\<rparr> ''bad_name_no_dot'' =
        (Inr ''Error: Invalid table name: bad_name_no_dot'', [])
   \<and> count_list ''a.b.c'' CHR ''.'' \<noteq> 1
   \<and> describe_table \<lparr>db = Some stub_db\<rparr> ''a.b.c'' =
        (Inr ''Error: Invalid table name: a.b.c'', [])"
  using describe_table_invalid_name [of "''bad_name_no_dot''" stub_db]
    describe_table_invalid_name [of "''a.b.c''" stub_db]
  by simp

section \<open>Queries\<close>

text \<open>
  C4. For every query text, \<open>BigQueryDatabase.execute_query\<close> makes exactly one call
  on the client, with the text as it was given and no job configuration; when the
  client raises, the same exception leaves the method, and when it returns rows, the
  rows are returned (each as a dict). Nothing is checked before the call.
\<close>

theorem execute_query_forwards_verbatim:
  "snd (BigQueryDatabase_execute_query self query None) = [QueryEv query None]
   \<and> (client_query (client self) query None = Inl e \<longrightarrow>
        fst (BigQueryDatabase_execute_query self query None) = Inl e)
   \<and> (client_query (client self) query None = Inr rows \<longrightarrow>
        fst (BigQueryDatabase_execute_query self query None) = Inr (map py_dict rows))
   \<and> snd (execute_query \<lparr>db = Some self\<rparr> query) = [QueryEv query None]"
  by (simp add: BigQueryDatabase_execute_query_def execute_query_def get_db_def
      split: sum.splits)

theorem execute_query_forwards_verbatim_witness:
  "snd (BigQueryDatabase_execute_query failing_db ''SELEC 1 FROM'' None) = [QueryEv ''SELEC 1 FROM'' None]
   \<and> client_query (client failing_db) ''SELEC 1 FROM'' None = Inl (BackendError ''Syntax error'')
   \<and> fst (BigQueryDatabase_execute_query failing_db ''SELEC 1 FROM'' None) = Inl (BackendError ''Syntax error'')
   \<and> client_query (client stub_db) ''SELECT 1 AS x'' None = Inr [[(''x'', JInt 1)]]
   \<and> fst (BigQueryDatabase_execute_query stub_db ''SELECT 1 AS x'' None) = Inr [[(''x'', JInt 1)]]"
  using execute_query_forwards_verbatim [of failing_db "''SELEC 1 FROM''" "BackendError ''Syntax error''" "[]"]
    execute_query_forwards_verbatim [of stub_db "''SELECT 1 AS x''" "BackendError []" "[[(''x'', JInt 1)]]"]
  by (simp add: failing_db_def failing_client_def stub_db_def stub_client_def py_dict_def)

text \<open>
  C10. For a name \<open>d.t\<close> with no dot inside \<open>d\<close> or \<open>t\<close>, \<open>describe_table\<close> makes
  exactly one call on the client. Its text is the fixed text
  \<open>SELECT ddl FROM d.INFORMATION_SCHEMA.TABLES WHERE table_name = @table_name;\<close>
  (laid out over four lines as in the source), in which only the dataset segment
  \<open>d\<close> is put; \<open>t\<close> is the value of the one query parameter, a \<open>STRING\<close> named
  \<open>table_name\<close>. For a second table \<open>t'\<close> of the same dataset the text is the same
  and only the parameter differs. The outcome is that of \<open>execute_query\<close> on this
  query.
\<close>

lemma describe_query_text:
  "describe_query d =
     ''\<newline>            SELECT ddl\<newline>            FROM '' @ d
     @ ''.INFORMATION_SCHEMA.TABLES\<newline>            WHERE table_name = @table_name;\<newline>        ''"
  by (simp add: describe_query_def numeral_eq_Suc)

theorem describe_table_query_text:
  assumes "CHR ''.'' \<notin> set d" and "CHR ''.'' \<notin> set t" and "CHR ''.'' \<notin> set t'"
  shows "snd (BigQueryDatabase_describe_table self (d @ ''.'' @ t)) =
           [QueryEv (describe_query d) (Some [ScalarQueryParameter ''table_name'' ''STRING'' t])]
    \<and> snd (BigQueryDatabase_describe_table self (d @ ''.'' @ t')) =
           [QueryEv (describe_query d) (Some [ScalarQueryParameter ''table_name'' ''STRING'' t'])]
    \<and> fst (BigQueryDatabase_describe_table self (d @ ''.'' @ t)) =
           fst (BigQueryDatabase_execute_query self (describe_query d)
                  (Some [ScalarQueryParameter ''table_name'' ''STRING'' t]))
    \<and> describe_query d =
           ''\<newline>            SELECT ddl\<newline>            FROM '' @ d
           @ ''.INFORMATION_SCHEMA.TABLES\<newline>            WHERE table_name = @table_name;\<newline>        ''
    \<and> snd (BigQueryDatabase_describe_table self (d @ ''.'' @ t)) =
           [QueryEv (''\<newline>            SELECT ddl\<newline>            FROM '' @ d
                     @ ''.INFORMATION_SCHEMA.TABLES\<newline>            WHERE table_name = @table_name;\<newline>        '')
              (Some [ScalarQueryParameter ''table_name'' ''STRING'' t])]"
proof -
  have q: "snd (BigQueryDatabase_describe_table self (d @ ''.'' @ u)) =
      [QueryEv (describe_query d) (Some [ScalarQueryParameter ''table_name'' ''STRING'' u])]"
    if "CHR ''.'' \<notin> set u" for u
    using assms(1) that
    by (simp add: BigQueryDatabase_describe_table_def split_sep_one
        BigQueryDatabase_execute_query_def Let_def split: sum.splits)
  have f: "fst (BigQueryDatabase_describe_table self (d @ ''.'' @ t)) =
      fst (BigQueryDatabase_execute_query self (describe_query d)
             (Some [ScalarQueryParameter ''table_name'' ''STRING'' t]))"
    using assms(1,2)
    by (simp add: BigQueryDatabase_describe_table_def split_sep_one)
  have e: "snd (BigQueryDatabase_describe_table self (d @ ''.'' @ t)) =
      [QueryEv (''\<newline>            SELECT ddl\<newline>            FROM '' @ d
                @ ''.INFORMATION_SCHEMA.TABLES\<newline>            WHERE table_name = @table_name;\<newline>        '')
         (Some [ScalarQueryParameter ''table_name'' ''STRING'' t])]"
    using q [OF assms(2)] describe_query_text [of d] by simp
  show ?thesis
    using q [OF assms(2)] q [OF assms(3)] f e describe_query_text [of d]
    by (intro conjI)
qed

theorem describe_table_query_text_witness:
  "CHR ''.'' \<notin> set ''sales'' \<and> CHR ''.'' \<notin> set ''orders'' \<and> CHR ''.'' \<notin> set ''users''
   \<and> snd (BigQueryDatabase_describe_table stub_db ''sales.orders'') =
         [QueryEv ''\<newline>            SELECT ddl\<newline>            FROM sales.INFORMATION_SCHEMA.TABLES\<newline>            WHERE table_name = @table_name;\<newline>        ''
            (Some [ScalarQueryParameter ''table_name'' ''STRING'' ''orders''])]
   \<and> snd (BigQueryDatabase_describe_table stub_db ''sales.users'') =
         [QueryEv ''\<newline>            SELECT ddl\<newline>            FROM sales.INFORMATION_SCHEMA.TABLES\<newline>            WHERE table_name = @table_name;\<newline>        ''
            (Some [ScalarQueryParameter ''table_name'' ''STRING'' ''users''])]
   \<and> describe_query ''sales'' =
         ''\<newline>            SELECT ddl\<newline>            FROM sales.INFORMATION_SCHEMA.TABLES\<newline>            WHERE table_name = @table_name;\<newline>        ''"
  using describe_table_query_text [of "''sales''" "''orders''" "''users''" stub_db]
  by (simp add: describe_query_text)

section \<open>The registered tools and the status route\<close>

text \<open>
  C6. The registered tools are \<open>execute_query\<close>, \<open>list_tables\<close> and \<open>describe_table\<close>
  and no other, each name once; \<open>execute_query\<close> takes one string \<open>query\<close>,
  \<open>list_tables\<close> takes nothing, \<open>describe_table\<close> takes one string \<open>table_name\<close>.
\<close>

theorem tool_set:
  "map tool_name mcp_tools = [''execute_query'', ''list_tables'', ''describe_table'']
   \<and> set (map tool_name mcp_tools) = {''execute_query'', ''list_tables'', ''describe_table''}
   \<and> distinct (map tool_name mcp_tools)
   \<and> map_of (map (\<lambda>t. (tool_name t, tool_params t)) mcp_tools) ''execute_query'' = Some [(''query'', ''str'')]
   \<and> map_of (map (\<lambda>t. (tool_name t, tool_params t)) mcp_tools) ''list_tables'' = Some []
   \<and> map_of (map (\<lambda>t. (tool_name t, tool_params t)) mcp_tools) ''describe_table'' = Some [(''table_name'', ''str'')]"
  by (simp add: mcp_tools_def)

text \<open>
  C7 as stated fails: the keys of the status object are not
  \<open>status\<close>, \<open>message\<close>, \<open>streamingEndpointPath\<close>.
\<close>

theorem mcp_status_key_counterexample:
  "set (map fst (fst (mcp_status \<lparr>db = Some stub_db\<rparr>))) \<noteq> {''status'', ''message'', ''streamingEndpointPath''}"
proof
  assume "set (map fst (fst (mcp_status \<lparr>db = Some stub_db\<rparr>))) = {''status'', ''message'', ''streamingEndpointPath''}"
  then have "''streamingEndpointPath'' \<in> set (map fst (fst (mcp_status \<lparr>db = Some stub_db\<rparr>)))"
    by simp
  then show False
    by (simp add: mcp_status_def)
qed

text \<open>
  C7, amended. The status object has exactly the keys \<open>status\<close>, \<open>message\<close> and
  \<open>sse_endpoint\<close>, each once; \<open>sse_endpoint\<close> holds the path at which \<open>handle_sse\<close> is
  routed; the route makes no call on the client library and its answer does not depend
  on the module's state.
\<close>

theorem mcp_status_keys:
  "set (map fst (fst (mcp_status st))) = {''status'', ''message'', ''sse_endpoint''}
   \<and> distinct (map fst (fst (mcp_status st)))
   \<and> map_of (fst (mcp_status st)) ''sse_endpoint'' = Some handle_sse_path
   \<and> snd (mcp_status st) = []
   \<and> mcp_status st = mcp_status st'"
  by (simp add: mcp_status_def handle_sse_path_def)

section \<open>Errors at the tool boundary\<close>

text \<open>
  C1 as stated fails: with \<open>_db\<close> still \<open>None\<close>, the \<open>RuntimeError\<close> of \<open>get_db\<close>,
  raised before the \<open>try\<close>, leaves each of the three tools.
\<close>

theorem tool_uninitialized_counterexample:
  "fst (execute_query \<lparr>db = None\<rparr> ''SELECT 1'') = Inl (RuntimeError ''BigQueryDatabase not initialized'')
   \<and> fst (list_tables \<lparr>db = None\<rparr>) = Inl (RuntimeError ''BigQueryDatabase not initialized'')
   \<and> fst (describe_table \<lparr>db = None\<rparr> ''ds.t'') = Inl (RuntimeError ''BigQueryDatabase not initialized'')"
  by (simp add: execute_query_def list_tables_def describe_table_def get_db_def)

text \<open>
  C1, amended. Once \<open>_db\<close> holds a database object, each of the three tools returns a
  string for every argument, whatever the client library does: no exception leaves
  the tool.
\<close>

theorem tool_returns_result:
  assumes "db st = Some d"
  shows "(\<exists>s. fst (execute_query st query) = Inr s)
    \<and> (\<exists>s. fst (list_tables st) = Inr s)
    \<and> (\<exists>s. fst (describe_table st table_name) = Inr s)"
  using assms
  by (auto simp: execute_query_def list_tables_def describe_table_def get_db_def
      split: sum.splits prod.splits)

theorem tool_returns_result_witness:
  "db \<lparr>db = Some failing_db\<rparr> = Some failing_db
   \<and> fst (execute_query \<lparr>db = Some failing_db\<rparr> ''SELEC'') = Inr ''Error: Syntax error''
   \<and> fst (list_tables \<lparr>db = Some failing_db\<rparr>) = Inr ''Error: Forbidden''
   \<and> fst (describe_table \<lparr>db = Some failing_db\<rparr> ''nodot'') = Inr ''Error: Invalid table name: nodot''"
  using tool_returns_result [of "\<lparr>db = Some failing_db\<rparr>" failing_db "''SELEC''" "''nodot''"]
  by (simp add: execute_query_def list_tables_def describe_table_def get_db_def
      failing_db_def failing_client_def BigQueryDatabase_execute_query_def
      BigQueryDatabase_list_tables_def BigQueryDatabase_describe_table_def error_result_def)

lemma execute_query_results:
  assumes "db st = Some d"
  shows "(fst (BigQueryDatabase_execute_query d query None) = Inl e \<longrightarrow>
           fst (execute_query st query) = Inr (''Error: '' @ exn_str e))
    \<and> (fst (BigQueryDatabase_execute_query d query None) = Inr rs
          \<and> json_dumps (JList (map JDict rs)) = Inl e \<longrightarrow>
           fst (execute_query st query) = Inr (''Error: '' @ exn_str e))
    \<and> (fst (BigQueryDatabase_execute_query d query None) = Inr rs
          \<and> json_dumps (JList (map JDict rs)) = Inr s \<longrightarrow>
           fst (execute_query st query) = Inr s \<and> s = iterencode 0 (JList (map JDict rs)))"
  using assms
  by (auto simp: execute_query_def get_db_def error_result_def
      dest: json_dumps_Inr split: sum.splits prod.splits)

lemma describe_table_results:
  assumes "db st = Some d"
  shows "(fst (BigQueryDatabase_describe_table d name) = Inl e \<longrightarrow>
           fst (describe_table st name) = Inr (''Error: '' @ exn_str e))
    \<and> (fst (BigQueryDatabase_describe_table d name) = Inr rs
          \<and> json_dumps (JList (map JDict rs)) = Inl e \<longrightarrow>
           fst (describe_table st name) = Inr (''Error: '' @ exn_str e))
    \<and> (fst (BigQueryDatabase_describe_table d name) = Inr rs
          \<and> json_dumps (JList (map JDict rs)) = Inr s \<longrightarrow>
           fst (describe_table st name) = Inr s \<and> s = iterencode 0 (JList (map JDict rs)))"
  using assms
  by (auto simp: describe_table_def get_db_def error_result_def
      dest: json_dumps_Inr split: sum.splits prod.splits)

lemma list_tables_results:
  assumes "db st = Some d"
  shows "(fst (BigQueryDatabase_list_tables d) = Inl e \<longrightarrow>
           fst (list_tables st) = Inr (''Error: '' @ exn_str e))
    \<and> (fst (BigQueryDatabase_list_tables d) = Inr ts \<longrightarrow>
           fst (list_tables st) = Inr (iterencode 0 (JList (map JStr ts))))"
  using assms
  by (auto simp: list_tables_def get_db_def error_result_def json_dumps_strs
      split: sum.splits prod.splits)

text \<open>
  C9. With \<open>_db\<close> set, for each tool: when the method raises \<open>e\<close>, or (for the two
  tools that return rows) when the method returns and \<open>json.dumps\<close> raises \<open>e\<close>, the
  tool returns \<open>Error: \<close> followed by \<open>str(e)\<close>; otherwise it returns the
  \<open>json.dumps(..., indent=2)\<close> text of a list (for \<open>list_tables\<close>, a list of
  strings, \<open>json.dumps\<close> cannot raise). The text of a list begins with \<open>[\<close> and an
  error string with \<open>E\<close>, so the two kinds of result differ in their first character.
\<close>

theorem tool_result_shape:
  assumes "db st = Some d"
  shows "(fst (BigQueryDatabase_execute_query d query None) = Inl e \<longrightarrow>
           fst (execute_query st query) = Inr (''Error: '' @ exn_str e))
    \<and> (fst (BigQueryDatabase_execute_query d query None) = Inr rs
          \<and> json_dumps (JList (map JDict rs)) = Inl e \<longrightarrow>
           fst (execute_query st query) = Inr (''Error: '' @ exn_str e))
    \<and> (fst (BigQueryDatabase_execute_query d query None) = Inr rs
          \<and> json_dumps (JList (map JDict rs)) = Inr s \<longrightarrow>
           fst (execute_query st query) = Inr s \<and> s = iterencode 0 (JList (map JDict rs)))
    \<and> (fst (BigQueryDatabase_list_tables d) = Inl e \<longrightarrow>
           fst (list_tables st) = Inr (''Error: '' @ exn_str e))
    \<and> (fst (BigQueryDatabase_list_tables d) = Inr ts \<longrightarrow>
           fst (list_tables st) = Inr (iterencode 0 (JList (map JStr ts))))
    \<and> (fst (BigQueryDatabase_describe_table d name) = Inl e \<longrightarrow>
           fst (describe_table st name) = Inr (''Error: '' @ exn_str e))
    \<and> (fst (BigQueryDatabase_describe_table d name) = Inr rs
          \<and> json_dumps (JList (map JDict rs)) = Inl e \<longrightarrow>
           fst (describe_table st name) = Inr (''Error: '' @ exn_str e))
    \<and> (fst (BigQueryDatabase_describe_table d name) = Inr rs
          \<and> json_dumps (JList (map JDict rs)) = Inr s \<longrightarrow>
           fst (describe_table st name) = Inr s \<and> s = iterencode 0 (JList (map JDict rs)))
    \<and> take 1 (iterencode 0 (JList vs)) = ''[''
    \<and> take 1 (''Error: '' @ exn_str e) = ''E''"
  using execute_query_results [OF assms, of query e rs s]
    list_tables_results [OF assms, of e ts]
    describe_table_results [OF assms, of name e rs s]
    iterencode_list_starts [of 0 vs]
  by simp

lemmas fixture_defs = stub_db_def stub_client_def failing_db_def failing_client_def opaque_db_def
  BigQueryDatabase_execute_query_def BigQueryDatabase_list_tables_def
  BigQueryDatabase_describe_table_def py_dict_def json_dumps_def

theorem tool_result_shape_witness:
  "db \<lparr>db = Some failing_db\<rparr> = Some failing_db
   \<and> fst (BigQueryDatabase_execute_query failing_db ''q'' None) = Inl (BackendError ''Syntax error'')
   \<and> fst (execute_query \<lparr>db = Some failing_db\<rparr> ''q'') = Inr ''Error: Syntax error''
   \<and> fst (BigQueryDatabase_list_tables failing_db) = Inl (BackendError ''Forbidden'')
   \<and> fst (list_tables \<lparr>db = Some failing_db\<rparr>) = Inr ''Error: Forbidden''
   \<and> fst (BigQueryDatabase_describe_table failing_db ''a.b'') = Inl (BackendError ''Syntax error'')
   \<and> fst (describe_table \<lparr>db = Some failing_db\<rparr> ''a.b'') = Inr ''Error: Syntax error''
   \<and> fst (BigQueryDatabase_execute_query opaque_db ''q'' None) = Inr [[(''ts'', JOpaque ''datetime'')]]
   \<and> json_dumps (JList (map JDict [[(''ts'', JOpaque ''datetime'')]])) =
        Inl (TypeError ''Object of type datetime is not JSON serializable'')
   \<and> fst (execute_query \<lparr>db = Some opaque_db\<rparr> ''q'') =
        Inr ''Error: Object of type datetime is not JSON serializable''
   \<and> fst (describe_table \<lparr>db = Some opaque_db\<rparr> ''a.b'') =
        Inr ''Error: Object of type datetime is not JSON serializable''
   \<and> fst (BigQueryDatabase_execute_query stub_db ''q'' None) = Inr [[(''x'', JInt 1)]]
   \<and> json_dumps (JList (map JDict [[(''x'', JInt 1)]])) = Inr (iterencode 0 (JList [JDict [(''x'', JInt 1)]]))
   \<and> fst (execute_query \<lparr>db = Some stub_db\<rparr> ''q'') = Inr (iterencode 0 (JList [JDict [(''x'', JInt 1)]]))
   \<and> fst (describe_table \<lparr>db = Some stub_db\<rparr> ''a.b'') = Inr (iterencode 0 (JList [JDict [(''x'', JInt 1)]]))
   \<and> fst (BigQueryDatabase_list_tables stub_db) = Inr [''ds.t1'', ''ds.t2'']
   \<and> fst (list_tables \<lparr>db = Some stub_db\<rparr>) = Inr (iterencode 0 (JList [JStr ''ds.t1'', JStr ''ds.t2'']))"
  using tool_result_shape [of "\<lparr>db = Some failing_db\<rparr>" failing_db "''q''"
      "BackendError ''Syntax error''" "[]" "[]" "[]" "''a.b''" "[]"]
    tool_result_shape [of "\<lparr>db = Some failing_db\<rparr>" failing_db "''q''"
      "BackendError ''Forbidden''" "[]" "[]" "[]" "''a.b''" "[]"]
    tool_result_shape [of "\<lparr>db = Some opaque_db\<rparr>" opaque_db "''q''"
      "TypeError ''Object of type datetime is not JSON serializable''"
      "[[(''ts'', JOpaque ''datetime'')]]" "[]" "[]" "''a.b''" "[]"]
    tool_result_shape [of "\<lparr>db = Some stub_db\<rparr>" stub_db "''q''"
      "TypeError []" "[[(''x'', JInt 1)]]" "iterencode 0 (JList [JDict [(''x'', JInt 1)]])"
      "[''ds.t1'', ''ds.t2'']" "''a.b''" "[]"]
  by (simp add: fixture_defs)


section \<open>The backend handle\<close>

lemma list_tables_loop_no_client:
  "list_tables_loop c ds tables = (r, evs) \<Longrightarrow> filter is_ClientEv evs = []"
proof (induction ds arbitrary: tables r evs)
  case Nil
  then show ?case by simp
next
  case (Cons x ds)
  then show ?case
    by (fastforce split: sum.splits prod.splits)
qed

lemma execute_query_no_client:
  "BigQueryDatabase_execute_query d q ps = (r, evs) \<Longrightarrow> filter is_ClientEv evs = []"
  by (auto simp: BigQueryDatabase_execute_query_def Let_def split: sum.splits)

lemma list_tables_no_client:
  "BigQueryDatabase_list_tables d = (r, evs) \<Longrightarrow> filter is_ClientEv evs = []"
  by (auto simp: BigQueryDatabase_list_tables_def
      dest: list_tables_loop_no_client split: sum.splits prod.splits if_splits)

lemma describe_table_no_client:
  "BigQueryDatabase_describe_table d n = (r, evs) \<Longrightarrow> filter is_ClientEv evs = []"
  by (auto simp: BigQueryDatabase_describe_table_def
      dest: execute_query_no_client split: list.splits)

lemma call_tool_no_client:
  "call_tool st c = (r, evs) \<Longrightarrow> filter is_ClientEv evs = []"
proof (cases c)
  case (CallExecuteQuery q)
  assume "call_tool st c = (r, evs)"
  with CallExecuteQuery show ?thesis
    by (auto simp: execute_query_def dest: execute_query_no_client
        split: sum.splits prod.splits)
next
  case CallListTables
  assume "call_tool st c = (r, evs)"
  with CallListTables show ?thesis
    by (auto simp: list_tables_def dest: list_tables_no_client
        split: sum.splits prod.splits)
next
  case (CallDescribeTable n)
  assume "call_tool st c = (r, evs)"
  with CallDescribeTable show ?thesis
    by (auto simp: describe_table_def dest: describe_table_no_client
        split: sum.splits prod.splits)
qed

lemma serve_results: "fst (serve st calls) = map (\<lambda>c. fst (call_tool st c)) calls"
  by (induction calls) (auto split: prod.splits)

lemma serve_no_client: "filter is_ClientEv (snd (serve st calls)) = []"
  by (induction calls) (auto dest: call_tool_no_client split: prod.splits)

lemma init_db_from_env_ok:
  assumes "init_db_from_env g env st0 = (Inr st, evs)"
  shows "\<exists>d cr. db st = Some d
    \<and> evs = [ClientEv cr (the (env ''BQ_PROJECT_ID'')) (the (env ''BQ_LOCATION''))]
    \<and> Client g cr (the (env ''BQ_PROJECT_ID'')) (the (env ''BQ_LOCATION'')) = Inr (client d)"
  using assms
  by (auto simp: init_db_from_env_def BigQueryDatabase_init_def Let_def
      split: sum.splits prod.splits if_splits)

text \<open>
  C8. When \<open>main\<close> gets as far as serving, \<open>init_db_from_env\<close> has made exactly one
  client, from the project and location of the environment (the command line
  applied), and stored the database object that holds it in \<open>_db\<close>; that call is the
  first of the run and the only construction in it. Every tool call is then run on
  this same state, so on this same object, and no tool call constructs a client.
\<close>

theorem backend_handle_shared:
  assumes "fst (main g a env calls) = Inr rs"
  shows "\<exists>st d cr.
      init_db_from_env g (main_env a env) \<lparr>db = None\<rparr> =
        (Inr st, [ClientEv cr (the (main_env a env ''BQ_PROJECT_ID'')) (the (main_env a env ''BQ_LOCATION''))])
    \<and> db st = Some d
    \<and> Client g cr (the (main_env a env ''BQ_PROJECT_ID'')) (the (main_env a env ''BQ_LOCATION'')) = Inr (client d)
    \<and> rs = map (\<lambda>c. fst (call_tool st c)) calls
    \<and> snd (main g a env calls) =
        ClientEv cr (the (main_env a env ''BQ_PROJECT_ID'')) (the (main_env a env ''BQ_LOCATION''))
          # snd (serve st calls)
    \<and> filter is_ClientEv (snd (serve st calls)) = []
    \<and> length (filter is_ClientEv (snd (main g a env calls))) = 1"
proof -
  obtain r evs where i: "init_db_from_env g (main_env a env) \<lparr>db = None\<rparr> = (r, evs)"
    by (cases "init_db_from_env g (main_env a env) \<lparr>db = None\<rparr>")
  obtain st where r: "r = Inr st"
    using assms i by (cases r) (auto simp: main_def split: prod.splits)
  from init_db_from_env_ok [OF i [unfolded r]]
  obtain d cr where d: "db st = Some d"
    and e: "evs = [ClientEv cr (the (main_env a env ''BQ_PROJECT_ID'')) (the (main_env a env ''BQ_LOCATION''))]"
    and c: "Client g cr (the (main_env a env ''BQ_PROJECT_ID'')) (the (main_env a env ''BQ_LOCATION'')) = Inr (client d)"
    by blast
  have m: "main g a env calls = (Inr (fst (serve st calls)), evs @ snd (serve st calls))"
    by (simp add: main_def i r split: prod.splits)
  have rs: "rs = map (\<lambda>c. fst (call_tool st c)) calls"
    using assms m serve_results by simp
  show ?thesis
    using i r d e c m rs serve_no_client [of st calls]
    by (intro exI [of _ st] exI [of _ d] exI [of _ cr]) simp
qed

theorem backend_handle_shared_witness:
  "fst (main stub_gcloud stub_args Map.empty [CallListTables, CallExecuteQuery ''SELECT 1 AS x'']) =
     Inr [Inr (iterencode 0 (JList [JStr ''ds.t1'', JStr ''ds.t2''])),
          Inr (iterencode 0 (JList [JDict [(''x'', JInt 1)]]))]
   \<and> snd (main stub_gcloud stub_args Map.empty [CallListTables, CallExecuteQuery ''SELECT 1 AS x'']) =
       [ClientEv None ''proj'' ''EU'', ListDatasetsEv, ListTablesEv ''ds'', QueryEv ''SELECT 1 AS x'' None]
   \<and> length (filter is_ClientEv
        (snd (main stub_gcloud stub_args Map.empty [CallListTables, CallExecuteQuery ''SELECT 1 AS x'']))) = 1"
proof -
  have m: "main stub_gcloud stub_args Map.empty [CallListTables, CallExecuteQuery ''SELECT 1 AS x''] =
    (Inr [Inr (iterencode 0 (JList [JStr ''ds.t1'', JStr ''ds.t2''])),
          Inr (iterencode 0 (JList [JDict [(''x'', JInt 1)]]))],
     [ClientEv None ''proj'' ''EU'', ListDatasetsEv, ListTablesEv ''ds'', QueryEv ''SELECT 1 AS x'' None])"
    by (simp add: main_def main_env_def init_db_from_env_def BigQueryDatabase_init_def
        stub_gcloud_def stub_args_def stub_client_def truthy_def Let_def
        execute_query_def list_tables_def get_db_def BigQueryDatabase_execute_query_def
        BigQueryDatabase_list_tables_def py_dict_def json_dumps_def)
  then have "fst (main stub_gcloud stub_args Map.empty [CallListTables, CallExecuteQuery ''SELECT 1 AS x'']) =
     Inr [Inr (iterencode 0 (JList [JStr ''ds.t1'', JStr ''ds.t2''])),
          Inr (iterencode 0 (JList [JDict [(''x'', JInt 1)]]))]"
    by simp
  from backend_handle_shared [OF this] m show ?thesis
    by simp
qed


section \<open>Reading back what \<open>json.dumps\<close> wrote\<close>

subsection \<open>Integers\<close>

lemma of_char_digit: "(k::nat) < 10 \<Longrightarrow> (of_char (char_of (48 + k) :: char) :: nat) = 48 + k"
  by (simp add: of_char_of)















subsection \<open>Strings\<close>






lemma scanstring_encoded:
  "encode_basestring_ascii s @ r = CHR 0x22 # concat (map escape_char s) @ CHR 0x22 # r"
  by (simp add: encode_basestring_ascii_def)

subsection \<open>One step of the decoder\<close>




















subsection \<open>Values, elements and members\<close>















subsection \<open>The payload of \<open>execute_query\<close>\<close>
















end
